theory Spec2Isabelle
  imports Complex_Main "HOL-Library.AList"
begin

section \<open>Python values and arithmetic\<close>

text \<open>
  The request handlers compute on Python floats. They are modelled as exact real numbers:
  rounding error, infinities, NaN and integers too large for a float are outside the model.
  Python integers are \<open>int\<close>. The cells of a data frame, where a missing value is a NaN,
  have a type of their own below.
  Every exception the source can raise is a value of \<open>py_error\<close>, returned as \<open>Inl\<close>.
\<close>

datatype py_error = ZeroDivisionError | ValidationError | TypeError | KeyError | LibraryError string

text \<open>\<^verbatim>\<open>a / b\<close> on floats: raises when the divisor is zero.\<close>

definition py_truediv :: "real \<Rightarrow> real \<Rightarrow> py_error + real" where
  "py_truediv a b = (if b = 0 then Inl ZeroDivisionError else Inr (a / b))"

text \<open>
  The built-in \<^verbatim>\<open>round(x)\<close> with one argument: the nearest integer, a tie going to the
  even neighbour.
\<close>

definition py_round :: "real \<Rightarrow> int" where
  "py_round x =
     (let f = \<lfloor>x\<rfloor>; d = x - of_int f
      in if d < 1 / 2 then f
         else if 1 / 2 < d then f + 1
         else if even f then f else f + 1)"

text \<open>\<^verbatim>\<open>np.clip(a, a_min, a_max)\<close> is \<^verbatim>\<open>minimum(a_max, maximum(a, a_min))\<close>.\<close>

definition np_clip :: "'a::linorder \<Rightarrow> 'a \<Rightarrow> 'a \<Rightarrow> 'a" where
  "np_clip a a_min a_max = min a_max (max a a_min)"

section \<open>The request and response models\<close>

record FinancialInput =
  salary :: real
  expenses :: real
  goal_amount :: real
  goal_type :: string
  duration_years :: int
  savings_percent :: "real option"

text \<open>
  The field constraints of \<^verbatim>\<open>FinancialInput\<close>: \<^verbatim>\<open>gt=0\<close> on salary, expenses, goal amount
  and duration, \<^verbatim>\<open>ge=0, le=100\<close> on the optional savings percent. A profile that passed
  request validation satisfies them.
\<close>

definition valid_profile :: "FinancialInput \<Rightarrow> bool" where
  "valid_profile p \<longleftrightarrow>
     0 < salary p \<and> 0 < expenses p \<and> 0 < goal_amount p \<and> 0 < duration_years p \<and>
     (case savings_percent p of None \<Rightarrow> True | Some s \<Rightarrow> 0 \<le> s \<and> s \<le> 100)"

text \<open>
  The insight is an f-string in the source. The model keeps which template was chosen and
  the values interpolated into it, not the formatted characters.
\<close>

datatype insight =
    Empty_Insight
  | is_On_Track: On_Track real real string int
  | is_Increase_Savings: Increase_Savings int real int
  | is_Model_Longer: Model_Longer int int
  | Warning_Save_All
  | is_Must_Save: Must_Save string int real

text \<open>
  The fields of \<^verbatim>\<open>PredictionResponse\<close> carry the prefix \<open>resp_\<close>: the source uses the bare
  names for local variables and for a field of the request as well.
\<close>

record PredictionResponse =
  resp_goal_type :: string
  resp_predicted_months :: int
  resp_recommended_savings_percent :: int
  resp_insight :: insight

text \<open>
  Constructing a \<^verbatim>\<open>PredictionResponse\<close> validates \<^verbatim>\<open>predicted_months >= 1\<close> and
  \<^verbatim>\<open>1 <= recommended_savings_percent <= 100\<close>.
\<close>

definition new_PredictionResponse ::
  "string \<Rightarrow> int \<Rightarrow> int \<Rightarrow> insight \<Rightarrow> py_error + PredictionResponse" where
  "new_PredictionResponse gt pm rsp ins =
     (if 1 \<le> pm \<and> 1 \<le> rsp \<and> rsp \<le> 100
      then Inr \<lparr>resp_goal_type = gt, resp_predicted_months = pm,
                resp_recommended_savings_percent = rsp, resp_insight = ins\<rparr>
      else Inl ValidationError)"

section \<open>The estimation engine\<close>

text \<open>
  The loaded regressor is opaque: \<^verbatim>\<open>model.predict(data)[0]\<close> is a function of the four
  features, in the order \<^verbatim>\<open>net_income, required_savings_rate, salary, expenses\<close>, to a scalar.
\<close>

type_synonym trained_model = "real \<Rightarrow> real \<Rightarrow> real \<Rightarrow> real \<Rightarrow> real"

definition predict_time_to_goal :: "trained_model \<Rightarrow> FinancialInput \<Rightarrow> py_error + int" where
  "predict_time_to_goal model input_data =
     (let net_income = salary input_data - expenses input_data
      in case py_truediv (goal_amount input_data) (of_int (duration_years input_data * 12)) of
           Inl e \<Rightarrow> Inl e
         | Inr required_savings_rate \<Rightarrow>
             (let predicted_months =
                    model net_income required_savings_rate (salary input_data) (expenses input_data)
              in Inr (max 1 (py_round predicted_months))))"

definition calculate_recommendation :: "FinancialInput \<Rightarrow> int \<Rightarrow> py_error + int" where
  "calculate_recommendation input_data target_months =
     (case py_truediv (goal_amount input_data) (of_int target_months) of
        Inl e \<Rightarrow> Inl e
      | Inr monthly_savings_needed \<Rightarrow>
          (let net_income = salary input_data - expenses input_data
           in if monthly_savings_needed > net_income then Inr 100
              else
                (let recommended_savings_amount = monthly_savings_needed + expenses input_data
                 in (case py_truediv recommended_savings_amount (salary input_data) of
                       Inl e \<Rightarrow> Inl e
                     | Inr q \<Rightarrow>
                         (let recommended_percent = q * 100
                          in Inr (np_clip (py_round recommended_percent) 1 100))))))"

section \<open>The two entry points\<close>

text \<open>
  Step 3 of \<^verbatim>\<open>predict_goal_achievement\<close>, the insight heuristic, with the variables it
  reads as parameters. \<^verbatim>\<open>insight_text\<close> starts as the empty string and is assigned in
  exactly one arm of the nested conditional.
\<close>

definition insight_generation ::
  "FinancialInput \<Rightarrow> int \<Rightarrow> int \<Rightarrow> int \<Rightarrow> py_error + insight" where
  "insight_generation input_data predicted_months target_months recommended_savings_percent =
     (case py_truediv (salary input_data - expenses input_data) (salary input_data) of
        Inl e \<Rightarrow> Inl e
      | Inr q \<Rightarrow>
          (let current_savings_rate = q * 100
           in if predicted_months \<le> target_months
              then Inr (On_Track current_savings_rate (salary input_data - expenses input_data)
                          (goal_type input_data) predicted_months)
              else
                (let current_savings = salary input_data - expenses input_data
                 in (case py_truediv (goal_amount input_data) (of_int target_months) of
                       Inl e \<Rightarrow> Inl e
                     | Inr required_savings_per_month \<Rightarrow>
                         (let extra_savings_needed = required_savings_per_month - current_savings
                          in if extra_savings_needed > 0
                             then Inr (Increase_Savings (duration_years input_data)
                                         extra_savings_needed recommended_savings_percent)
                             else Inr (Model_Longer recommended_savings_percent
                                         (duration_years input_data)))))))"

text \<open>
  Both entry points return the response together with the request object as it is when
  the function returns, so that an assignment to one of its fields is visible.
\<close>

definition predict_goal_achievement ::
  "trained_model \<Rightarrow> FinancialInput \<Rightarrow> py_error + (PredictionResponse \<times> FinancialInput)" where
  "predict_goal_achievement model input_data =
     (case predict_time_to_goal model input_data of
        Inl e \<Rightarrow> Inl e
      | Inr predicted_months \<Rightarrow>
          (let target_months = duration_years input_data * 12
           in (case calculate_recommendation input_data target_months of
                 Inl e \<Rightarrow> Inl e
               | Inr recommended_savings_percent \<Rightarrow>
                   (case insight_generation input_data predicted_months target_months
                           recommended_savings_percent of
                      Inl e \<Rightarrow> Inl e
                    | Inr insight_text \<Rightarrow>
                        (case new_PredictionResponse (goal_type input_data)
                                predicted_months recommended_savings_percent insight_text of
                           Inl e \<Rightarrow> Inl e
                         | Inr response \<Rightarrow> Inr (response, input_data))))))"

definition get_savings_recommendation ::
  "trained_model \<Rightarrow> FinancialInput \<Rightarrow> py_error + (PredictionResponse \<times> FinancialInput)" where
  "get_savings_recommendation model input_data =
     (let target_months = duration_years input_data * 12
      in (case calculate_recommendation input_data target_months of
            Inl e \<Rightarrow> Inl e
          | Inr recommended_savings_percent \<Rightarrow>
              (let insight_text =
                     (if recommended_savings_percent = 100 then Warning_Save_All
                      else
                        (let required_savings_amount =
                               (of_int recommended_savings_percent / 100) * salary input_data;
                             extra_amount_over_expenses =
                               required_savings_amount - expenses input_data
                         in Must_Save (goal_type input_data)
                              (duration_years input_data) extra_amount_over_expenses));
                   input_data' =
                     input_data\<lparr>savings_percent := Some (of_int recommended_savings_percent)\<rparr>
               in (case predict_time_to_goal model input_data' of
                     Inl e \<Rightarrow> Inl e
                   | Inr predicted_months \<Rightarrow>
                       (case new_PredictionResponse (goal_type input_data')
                               predicted_months recommended_savings_percent insight_text of
                          Inl e \<Rightarrow> Inl e
                        | Inr response \<Rightarrow> Inr (response, input_data'))))))"

section \<open>Data frames\<close>

text \<open>
  A \<^verbatim>\<open>float64\<close> cell is a finite real, an infinity or NaN (a missing value); signed zeros
  and rounding are outside the model. Integer columns hold finite integral values.
\<close>

datatype npfloat = Fin real | PInf | NInf | NaN

fun np_neg :: "npfloat \<Rightarrow> npfloat" where
  "np_neg (Fin a) = Fin (- a)"
| "np_neg PInf = NInf"
| "np_neg NInf = PInf"
| "np_neg NaN = NaN"

fun np_add :: "npfloat \<Rightarrow> npfloat \<Rightarrow> npfloat" where
  "np_add NaN y = NaN"
| "np_add x NaN = NaN"
| "np_add (Fin a) (Fin b) = Fin (a + b)"
| "np_add (Fin a) y = y"
| "np_add x (Fin b) = x"
| "np_add PInf PInf = PInf"
| "np_add NInf NInf = NInf"
| "np_add PInf NInf = NaN"
| "np_add NInf PInf = NaN"

definition np_sub :: "npfloat \<Rightarrow> npfloat \<Rightarrow> npfloat" where
  "np_sub x y = np_add x (np_neg y)"

text \<open>The sign of a cell: \<open>1\<close>, \<open>0\<close>, \<open>-1\<close>; NaN has none.\<close>

fun np_sign :: "npfloat \<Rightarrow> int option" where
  "np_sign (Fin a) = Some (if 0 < a then 1 else if a < 0 then - 1 else 0)"
| "np_sign PInf = Some 1"
| "np_sign NInf = Some (- 1)"
| "np_sign NaN = None"

definition signed_inf :: "int \<Rightarrow> npfloat" where
  "signed_inf s = (if 0 < s then PInf else if s < 0 then NInf else NaN)"

fun np_mul :: "npfloat \<Rightarrow> npfloat \<Rightarrow> npfloat" where
  "np_mul (Fin a) (Fin b) = Fin (a * b)"
| "np_mul x y =
     (case (np_sign x, np_sign y) of
        (Some s, Some t) \<Rightarrow> signed_inf (s * t)
      | _ \<Rightarrow> NaN)"

text \<open>
  Division of arrays does not raise on a zero divisor: a nonzero finite value over zero is
  an infinity of the dividend's sign, zero over zero is NaN.
\<close>

fun np_div :: "npfloat \<Rightarrow> npfloat \<Rightarrow> npfloat" where
  "np_div NaN y = NaN"
| "np_div x NaN = NaN"
| "np_div (Fin a) (Fin b) =
     (if b = 0 then signed_inf (if 0 < a then 1 else if a < 0 then - 1 else 0)
      else Fin (a / b))"
| "np_div (Fin a) y = Fin 0"
| "np_div PInf (Fin b) = (if b < 0 then NInf else PInf)"
| "np_div NInf (Fin b) = (if b < 0 then PInf else NInf)"
| "np_div x y = NaN"

text \<open>
  A column has a dtype: numeric (\<^verbatim>\<open>int64\<close> or \<^verbatim>\<open>float64\<close>) or \<^verbatim>\<open>object\<close>, here a column of
  strings. A data frame is an ordered list of named columns; assigning to a column
  replaces it in place or appends it.
\<close>

datatype column = is_Floats: Floats "npfloat list" | Objects "string list"

type_synonym DataFrame = "(string \<times> column) list"

definition df_get :: "DataFrame \<Rightarrow> string \<Rightarrow> py_error + column" where
  "df_get df name = (case map_of df name of None \<Rightarrow> Inl KeyError | Some c \<Rightarrow> Inr c)"

definition df_set :: "DataFrame \<Rightarrow> string \<Rightarrow> column \<Rightarrow> DataFrame" where
  "df_set df name c = AList.update name c df"

text \<open>\<^verbatim>\<open>df[[n1, ..., nk]]\<close>: the named columns in the order asked for.\<close>

fun df_select :: "DataFrame \<Rightarrow> string list \<Rightarrow> py_error + DataFrame" where
  "df_select df [] = Inr []"
| "df_select df (name # names) =
     (case df_get df name of
        Inl e \<Rightarrow> Inl e
      | Inr c \<Rightarrow> (case df_select df names of
                    Inl e \<Rightarrow> Inl e
                  | Inr rest \<Rightarrow> Inr ((name, c) # rest)))"

text \<open>
  Elementwise arithmetic on the columns of one frame. Subtracting or dividing strings
  raises \<^verbatim>\<open>TypeError\<close>; a string times an integer is the string repeated.
\<close>

fun series_sub :: "column \<Rightarrow> column \<Rightarrow> py_error + column" where
  "series_sub (Floats xs) (Floats ys) = Inr (Floats (map2 np_sub xs ys))"
| "series_sub x y = Inl TypeError"

fun series_truediv :: "column \<Rightarrow> column \<Rightarrow> py_error + column" where
  "series_truediv (Floats xs) (Floats ys) = Inr (Floats (map2 np_div xs ys))"
| "series_truediv x y = Inl TypeError"

fun series_mul_int :: "column \<Rightarrow> int \<Rightarrow> column" where
  "series_mul_int (Floats xs) k = Floats (map (\<lambda>x. np_mul x (Fin (of_int k))) xs)"
| "series_mul_int (Objects ss) k = Objects (map (\<lambda>s. concat (replicate (nat k) s)) ss)"

section \<open>The synthetic data generator\<close>

text \<open>
  NumPy's global generator is outside the repository. It is a parameter: a state type
  \<open>'s\<close> with the operations the generator calls, each drawing \<open>n\<close> values and
  returning the next state. \<open>np_randint\<close> draws integers in \<open>[low, high)\<close>,
  \<open>np_uniform\<close> reals in \<open>[low, high)\<close>, \<open>np_choice\<close> elements of a list.
\<close>

record 's np_random =
  np_seed :: "nat \<Rightarrow> 's"
  np_randint :: "int \<Rightarrow> int \<Rightarrow> nat \<Rightarrow> 's \<Rightarrow> int list \<times> 's"
  np_uniform :: "real \<Rightarrow> real \<Rightarrow> nat \<Rightarrow> 's \<Rightarrow> real list \<times> 's"
  np_choice :: "string list \<Rightarrow> nat \<Rightarrow> 's \<Rightarrow> string list \<times> 's"

definition NUM_RECORDS :: nat where
  "NUM_RECORDS = 1000"

definition MODEL_PATH :: string where
  "MODEL_PATH = ''financial_model.pkl''"

text \<open>\<^verbatim>\<open>astype(int)\<close> truncates towards zero.\<close>

definition astype_int :: "real \<Rightarrow> int" where
  "astype_int x = (if 0 \<le> x then \<lfloor>x\<rfloor> else \<lceil>x\<rceil>)"

text \<open>
  The generator takes the global generator state it finds and returns the frame and the
  state it leaves. Arrays are lists of equal length \<open>n_records\<close>; the arrays are finite
  numbers, and \<open>monthly_savings\<close> is nonzero for draws inside the ranges asked for.
\<close>

definition generate_synthetic_data :: "'s np_random \<Rightarrow> nat \<Rightarrow> 's \<Rightarrow> DataFrame \<times> 's" where
  "generate_synthetic_data rng n_records g =
     (let g0 = np_seed rng 42;
          (salary, g1) = np_randint rng 30000 200000 n_records g0;
          (fraction, g2) = np_uniform rng 0.3 0.8 n_records g1;
          expenses = map2 (\<lambda>s u. of_int s * u) salary fraction;
          (savings_percent, g3) = np_uniform rng 0.1 0.4 n_records g2;
          (goal_amount, g4) = np_randint rng 100000 5000000 n_records g3;
          (duration_years, g5) = np_randint rng 1 10 n_records g4;
          (goal_type, g6) =
             np_choice rng [''car'', ''house_downpayment'', ''trip'', ''education''] n_records g5;
          monthly_savings = map2 (\<lambda>s sp. of_int s * sp) salary savings_percent;
          time_months = map2 (\<lambda>ga ms. real_of_int \<lceil>of_int ga / ms\<rceil>) goal_amount monthly_savings;
          (noise, g7) = np_randint rng (- 10) 10 n_records g6;
          time_months = map2 (\<lambda>t k. t + of_int k) time_months noise;
          time_months = map (\<lambda>t. np_clip t 1 120) time_months;
          data =
            [(''salary'', Floats (map (\<lambda>s. Fin (of_int s)) salary)),
             (''expenses'', Floats (map Fin expenses)),
             (''goal_amount'', Floats (map (\<lambda>ga. Fin (of_int ga)) goal_amount)),
             (''duration_years'', Floats (map (\<lambda>d. Fin (of_int d)) duration_years)),
             (''goal_type'', Objects goal_type),
             (''savings_percent'', Floats (map (\<lambda>sp. Fin (sp * 100)) savings_percent)),
             (''time_months'', Floats (map (\<lambda>t. Fin (of_int (astype_int t))) time_months)),
             (''achieved'',
                Floats (map2 (\<lambda>t d. Fin (if t \<le> of_int (d * 12) then 1 else 0))
                          time_months duration_years))]
      in (data, g7))"

section \<open>The trainer\<close>

text \<open>
  scikit-learn and joblib are outside the repository. The calls the trainer makes are
  parameters, each of which may raise: the deterministic 80/20 split, fitting a forest of
  100 trees, prediction and the mean absolute error. \<open>'m\<close> is the fitted model. The file
  system is a map from paths to stored models; \<^verbatim>\<open>joblib.dump\<close> writes one entry. The two
  \<^verbatim>\<open>print\<close> calls are not modelled.
\<close>

record 'm sklearn =
  train_test_split ::
    "DataFrame \<Rightarrow> column \<Rightarrow> py_error + (DataFrame \<times> DataFrame \<times> column \<times> column)"
  fit :: "DataFrame \<Rightarrow> column \<Rightarrow> py_error + 'm"
  predict :: "'m \<Rightarrow> DataFrame \<Rightarrow> py_error + column"
  mean_absolute_error :: "column \<Rightarrow> column \<Rightarrow> py_error + real"

type_synonym 'm storage = "string \<rightharpoonup> 'm"

text \<open>
  The trainer assigns two columns to the caller's frame and writes the model file. It
  returns the model or the error, the frame as it leaves it and the storage as it leaves it.
\<close>

definition train_and_save_model ::
  "'m sklearn \<Rightarrow> DataFrame \<Rightarrow> 'm storage \<Rightarrow> (py_error + 'm) \<times> DataFrame \<times> 'm storage" where
  "train_and_save_model lib df files =
     (case df_get df ''salary'' of Inl e \<Rightarrow> (Inl e, df, files) | Inr sal \<Rightarrow>
     (case df_get df ''expenses'' of Inl e \<Rightarrow> (Inl e, df, files) | Inr exps \<Rightarrow>
     (case series_sub sal exps of Inl e \<Rightarrow> (Inl e, df, files) | Inr net_income \<Rightarrow>
     (let df1 = df_set df ''net_income'' net_income in
     (case df_get df1 ''goal_amount'' of Inl e \<Rightarrow> (Inl e, df1, files) | Inr goal \<Rightarrow>
     (case df_get df1 ''duration_years'' of Inl e \<Rightarrow> (Inl e, df1, files) | Inr dur \<Rightarrow>
     (case series_truediv goal (series_mul_int dur 12) of
        Inl e \<Rightarrow> (Inl e, df1, files) | Inr required_savings_rate \<Rightarrow>
     (let df2 = df_set df1 ''required_savings_rate'' required_savings_rate in
     (case df_select df2 [''net_income'', ''required_savings_rate'', ''salary'', ''expenses''] of
        Inl e \<Rightarrow> (Inl e, df2, files) | Inr X \<Rightarrow>
     (case df_get df2 ''time_months'' of Inl e \<Rightarrow> (Inl e, df2, files) | Inr y \<Rightarrow>
     (case train_test_split lib X y of
        Inl e \<Rightarrow> (Inl e, df2, files) | Inr (X_train, X_test, y_train, y_test) \<Rightarrow>
     (case fit lib X_train y_train of Inl e \<Rightarrow> (Inl e, df2, files) | Inr model \<Rightarrow>
     (case predict lib model X_test of Inl e \<Rightarrow> (Inl e, df2, files) | Inr y_pred \<Rightarrow>
     (case mean_absolute_error lib y_test y_pred of Inl e \<Rightarrow> (Inl e, df2, files) | Inr mae \<Rightarrow>
       (Inr model, df2, files(MODEL_PATH \<mapsto> model))))))))))))))))"

text \<open>
  A column is invalid for training when it is not numeric or holds a missing value; a
  feature frame is invalid when one of its columns is.
\<close>

definition column_invalid :: "column \<Rightarrow> bool" where
  "column_invalid c = (case c of Floats xs \<Rightarrow> NaN \<in> set xs | Objects ss \<Rightarrow> True)"

definition frame_invalid :: "DataFrame \<Rightarrow> bool" where
  "frame_invalid X = list_ex (\<lambda>(name, c). column_invalid c) X"

definition feature_names :: "string list" where
  "feature_names = [''net_income'', ''required_savings_rate'', ''salary'', ''expenses'']"

section \<open>Concrete inputs\<close>

text \<open>A regressor that answers the same scalar for every feature vector.\<close>

definition constant_model :: "real \<Rightarrow> trained_model" where
  "constant_model c = (\<lambda>net_income required_savings_rate salary expenses. c)"

text \<open>The profile of the worked scenario: 100000 earned, 50000 spent, 240000 in two years.\<close>

definition scenario_profile :: FinancialInput where
  "scenario_profile =
     \<lparr>salary = 100000, expenses = 50000, goal_amount = 240000, goal_type = ''car'',
      duration_years = 2, savings_percent = None\<rparr>"


text \<open>
  A library that accepts whatever frame it is given, as the forests of scikit-learn do for
  NaN from version 1.4 on: the split cuts the rows 80/20 by position, the fitted model is
  the number of training rows, every prediction is zero.
\<close>

fun column_rows :: "column \<Rightarrow> nat" where
  "column_rows (Floats xs) = length xs"
| "column_rows (Objects ss) = length ss"

fun column_take :: "nat \<Rightarrow> column \<Rightarrow> column" where
  "column_take k (Floats xs) = Floats (take k xs)"
| "column_take k (Objects ss) = Objects (take k ss)"

fun column_drop :: "nat \<Rightarrow> column \<Rightarrow> column" where
  "column_drop k (Floats xs) = Floats (drop k xs)"
| "column_drop k (Objects ss) = Objects (drop k ss)"

definition lenient_sklearn :: "nat sklearn" where
  "lenient_sklearn =
     \<lparr>train_test_split =
        (\<lambda>X y. let k = column_rows y - column_rows y div 5
               in Inr (map (\<lambda>(name, c). (name, column_take k c)) X,
                       map (\<lambda>(name, c). (name, column_drop k c)) X,
                       column_take k y, column_drop k y)),
      fit = (\<lambda>X y. Inr (column_rows y)),
      predict = (\<lambda>m X. Inr (Floats (replicate (case X of [] \<Rightarrow> 0 | (name, c) # _ \<Rightarrow> column_rows c) (Fin 0)))),
      mean_absolute_error = (\<lambda>y_true y_pred. Inr 0)\<rparr>"

text \<open>Five training records; the first salary is missing.\<close>

definition frame_with_missing :: DataFrame where
  "frame_with_missing =
     [(''salary'', Floats [NaN, Fin 50000, Fin 60000, Fin 70000, Fin 80000]),
      (''expenses'', Floats [Fin 20000, Fin 25000, Fin 30000, Fin 35000, Fin 40000]),
      (''goal_amount'', Floats [Fin 120000, Fin 240000, Fin 360000, Fin 480000, Fin 600000]),
      (''duration_years'', Floats [Fin 1, Fin 2, Fin 3, Fin 4, Fin 5]),
      (''goal_type'', Objects [''car'', ''trip'', ''car'', ''trip'', ''car'']),
      (''savings_percent'', Floats [Fin 10, Fin 20, Fin 30, Fin 40, Fin 25]),
      (''time_months'', Floats [Fin 12, Fin 24, Fin 36, Fin 48, Fin 60]),
      (''achieved'', Floats [Fin 1, Fin 1, Fin 1, Fin 1, Fin 1])]"

text \<open>The same records with the salaries read as text.\<close>

definition frame_with_text :: DataFrame where
  "frame_with_text =
     df_set frame_with_missing ''salary''
       (Objects [''n/a'', ''50000'', ''60000'', ''70000'', ''80000''])"

section \<open>Rounding and clipping\<close>





section \<open>The recommendation solver\<close>

lemma valid_scenario_profile: "valid_profile scenario_profile"
  by (simp add: valid_profile_def scenario_profile_def)




lemma calculate_recommendation_range:
  assumes "valid_profile p" and "0 < target_months"
  shows "\<exists>r. calculate_recommendation p target_months = Inr r \<and> 1 \<le> r \<and> r \<le> 100"
  using assms
  by (auto simp add: calculate_recommendation_def py_truediv_def valid_profile_def Let_def
      np_clip_def)







text \<open>
  C5. The worked scenario of the feasible branch: salary 100000, expenses 50000, goal 240000
  in 2 years, so 24 target months; the monthly savings needed are 10000, at most the net
  income 50000; the recommended savings amount is 60000; the result is
  \<open>round (100 * 60000 / 100000) = 60\<close>.
\<close>

theorem calculate_recommendation_scenario:
  "duration_years scenario_profile * 12 = 24 \<and>
   goal_amount scenario_profile / 24 = 10000 \<and>
   salary scenario_profile - expenses scenario_profile = 50000 \<and>
   goal_amount scenario_profile / 24 \<le> salary scenario_profile - expenses scenario_profile \<and>
   goal_amount scenario_profile / 24 + expenses scenario_profile = 60000 \<and>
   py_round (100 * 60000 / 100000) = 60 \<and>
   calculate_recommendation scenario_profile (duration_years scenario_profile * 12) = Inr 60"
  by (simp add: scenario_profile_def calculate_recommendation_def py_truediv_def Let_def
      py_round_def np_clip_def)

section \<open>The predictor\<close>

lemma predict_time_to_goal_valid:
  assumes "0 < duration_years p"
  shows "predict_time_to_goal model p =
           Inr (max 1 (py_round (model (salary p - expenses p)
                  (goal_amount p / of_int (duration_years p * 12)) (salary p) (expenses p))))"
  using assms by (simp add: predict_time_to_goal_def py_truediv_def Let_def)

lemma predict_time_to_goal_savings_percent:
  "predict_time_to_goal model (p\<lparr>savings_percent := x\<rparr>) = predict_time_to_goal model p"
  by (simp add: predict_time_to_goal_def Let_def split: sum.splits)

lemma predict_time_to_goal_ge_1:
  assumes "valid_profile p"
  shows "\<exists>n. predict_time_to_goal model p = Inr n \<and> 1 \<le> n"
  using assms
  by (simp add: predict_time_to_goal_def py_truediv_def valid_profile_def Let_def)



section \<open>The entry points\<close>

lemma insight_generation_branches:
  assumes "valid_profile p" and "0 < target_months"
  shows "\<exists>ins. insight_generation p predicted_months target_months rsp = Inr ins \<and>
           (is_On_Track ins \<longleftrightarrow> predicted_months \<le> target_months) \<and>
           (is_Increase_Savings ins \<longleftrightarrow>
              predicted_months > target_months \<and>
              goal_amount p / of_int target_months - (salary p - expenses p) > 0) \<and>
           (is_Model_Longer ins \<longleftrightarrow>
              predicted_months > target_months \<and>
              \<not> goal_amount p / of_int target_months - (salary p - expenses p) > 0)"
  using assms
  by (auto simp add: insight_generation_def py_truediv_def valid_profile_def Let_def)

lemma predict_goal_achievement_valid:
  assumes "valid_profile p"
  shows "\<exists>resp. predict_goal_achievement model p = Inr (resp, p) \<and>
           predict_time_to_goal model p = Inr (resp_predicted_months resp) \<and>
           calculate_recommendation p (duration_years p * 12)
             = Inr (resp_recommended_savings_percent resp) \<and>
           insight_generation p (resp_predicted_months resp) (duration_years p * 12)
               (resp_recommended_savings_percent resp) = Inr (resp_insight resp)"
proof -
  from assms have "0 < duration_years p" by (simp add: valid_profile_def)
  then have tm: "0 < duration_years p * 12" by simp
  from assms obtain n where n: "predict_time_to_goal model p = Inr n" and n1: "1 \<le> n"
    using predict_time_to_goal_ge_1 by blast
  from assms tm obtain r where r: "calculate_recommendation p (duration_years p * 12) = Inr r"
    and r1: "1 \<le> r" and r100: "r \<le> 100"
    using calculate_recommendation_range by blast
  from assms tm obtain ins
    where ins: "insight_generation p n (duration_years p * 12) r = Inr ins"
    using insight_generation_branches by blast
  from n r ins n1 r1 r100 show ?thesis
    by (simp add: predict_goal_achievement_def Let_def new_PredictionResponse_def)
qed

lemma get_savings_recommendation_valid:
  assumes "valid_profile p"
  shows "\<exists>resp r n. get_savings_recommendation model p =
             Inr (resp, p\<lparr>savings_percent := Some (of_int r)\<rparr>) \<and>
           calculate_recommendation p (duration_years p * 12) = Inr r \<and>
           predict_time_to_goal model p = Inr n \<and>
           resp_recommended_savings_percent resp = r \<and>
           resp_predicted_months resp = n \<and>
           resp_goal_type resp = goal_type p"
proof -
  from assms have "0 < duration_years p" by (simp add: valid_profile_def)
  then have "0 < duration_years p * 12" by simp
  with assms obtain r where r: "calculate_recommendation p (duration_years p * 12) = Inr r"
    and r1: "1 \<le> r" and r100: "r \<le> 100"
    using calculate_recommendation_range by blast
  from assms obtain n where n: "predict_time_to_goal model p = Inr n" and n1: "1 \<le> n"
    using predict_time_to_goal_ge_1 by blast
  from r n r1 r100 n1 show ?thesis
    by (simp add: get_savings_recommendation_def Let_def predict_time_to_goal_savings_percent
        new_PredictionResponse_def)
qed



text \<open>
  C9 (amended). The prediction entry point returns with the profile it was given. The
  recommendation-first entry point assigns the recommended percent to \<open>savings_percent\<close>
  and changes nothing else: salary, expenses, goal amount, goal type and duration hold the
  values they were constructed with.
\<close>

theorem get_savings_recommendation_overrides_savings_percent:
  assumes "valid_profile p"
  shows "(\<exists>resp p'. get_savings_recommendation model p = Inr (resp, p') \<and>
           p' = p\<lparr>savings_percent := Some (of_int (resp_recommended_savings_percent resp))\<rparr> \<and>
           salary p' = salary p \<and> expenses p' = expenses p \<and>
           goal_amount p' = goal_amount p \<and> goal_type p' = goal_type p \<and>
           duration_years p' = duration_years p) \<and>
         (\<exists>resp. predict_goal_achievement model p = Inr (resp, p))"
  using get_savings_recommendation_valid [OF assms, of model]
    predict_goal_achievement_valid [OF assms, of model]
  by auto

theorem get_savings_recommendation_overrides_savings_percent_witness:
  "valid_profile scenario_profile \<and>
   (\<exists>resp p'. get_savings_recommendation (constant_model 30) scenario_profile = Inr (resp, p') \<and>
      p' = scenario_profile
             \<lparr>savings_percent := Some (of_int (resp_recommended_savings_percent resp))\<rparr> \<and>
      salary p' = salary scenario_profile \<and> duration_years p' = duration_years scenario_profile) \<and>
   (\<exists>resp. predict_goal_achievement (constant_model 30) scenario_profile
              = Inr (resp, scenario_profile))"
  using get_savings_recommendation_overrides_savings_percent
          [OF valid_scenario_profile, of "constant_model 30"]
    valid_scenario_profile
  by auto

text \<open>
  C9 as stated fails: a profile constructed with \<open>savings_percent = 10\<close> leaves the
  recommendation-first entry point with \<open>savings_percent = 60\<close>.
\<close>

theorem profile_immutability_counterexample:
  "savings_percent (scenario_profile\<lparr>savings_percent := Some 10\<rparr>) = Some 10 \<and>
   map_sum id (savings_percent \<circ> snd)
     (get_savings_recommendation (constant_model 30)
        (scenario_profile\<lparr>savings_percent := Some 10\<rparr>))
     = Inr (Some 60) \<and>
   map_sum id (savings_percent \<circ> snd)
     (get_savings_recommendation (constant_model 30)
        (scenario_profile\<lparr>savings_percent := Some 10\<rparr>))
     \<noteq> Inr (savings_percent (scenario_profile\<lparr>savings_percent := Some 10\<rparr>))"
  by (simp add: get_savings_recommendation_def scenario_profile_def constant_model_def
      calculate_recommendation_def predict_time_to_goal_def py_truediv_def Let_def
      py_round_def np_clip_def new_PredictionResponse_def)

text \<open>
  C10. \<open>predict_time_to_goal\<close> does not read \<open>savings_percent\<close>: two profiles that agree on
  salary, expenses, goal amount, goal type and duration get the same months estimate.
  Hence, for a valid profile, the months reported by the recommendation-first entry point,
  computed after the recommended percent was written into the profile, are the estimate for
  the original profile.
\<close>

theorem predict_time_to_goal_ignores_savings_percent:
  assumes "salary p = salary q" and "expenses p = expenses q"
    and "goal_amount p = goal_amount q" and "goal_type p = goal_type q"
    and "duration_years p = duration_years q"
  shows "predict_time_to_goal model p = predict_time_to_goal model q \<and>
         (valid_profile p \<longrightarrow>
            (\<exists>resp p'. get_savings_recommendation model p = Inr (resp, p') \<and>
               predict_time_to_goal model p' = Inr (resp_predicted_months resp) \<and>
               predict_time_to_goal model p = Inr (resp_predicted_months resp)))"
proof
  from assms show "predict_time_to_goal model p = predict_time_to_goal model q"
    by (simp add: predict_time_to_goal_def Let_def split: sum.splits)
next
  show "valid_profile p \<longrightarrow>
            (\<exists>resp p'. get_savings_recommendation model p = Inr (resp, p') \<and>
               predict_time_to_goal model p' = Inr (resp_predicted_months resp) \<and>
               predict_time_to_goal model p = Inr (resp_predicted_months resp))"
  proof
    assume "valid_profile p"
    from get_savings_recommendation_valid [OF this, of model]
    show "\<exists>resp p'. get_savings_recommendation model p = Inr (resp, p') \<and>
               predict_time_to_goal model p' = Inr (resp_predicted_months resp) \<and>
               predict_time_to_goal model p = Inr (resp_predicted_months resp)"
      by (auto simp add: predict_time_to_goal_savings_percent)
  qed
qed

theorem predict_time_to_goal_ignores_savings_percent_witness:
  "savings_percent scenario_profile \<noteq> savings_percent (scenario_profile\<lparr>savings_percent := Some 35\<rparr>) \<and>
   valid_profile scenario_profile \<and>
   predict_time_to_goal (constant_model 30) scenario_profile
     = predict_time_to_goal (constant_model 30) (scenario_profile\<lparr>savings_percent := Some 35\<rparr>) \<and>
   (\<exists>resp p'. get_savings_recommendation (constant_model 30) scenario_profile = Inr (resp, p') \<and>
      predict_time_to_goal (constant_model 30) p' = Inr (resp_predicted_months resp) \<and>
      predict_time_to_goal (constant_model 30) scenario_profile
        = Inr (resp_predicted_months resp))"
proof -
  have d: "savings_percent scenario_profile
             \<noteq> savings_percent (scenario_profile\<lparr>savings_percent := Some 35\<rparr>)"
    by (simp add: scenario_profile_def)
  let ?q = "scenario_profile\<lparr>savings_percent := Some 35\<rparr>"
  have "salary scenario_profile = salary ?q" and "expenses scenario_profile = expenses ?q"
    and "goal_amount scenario_profile = goal_amount ?q"
    and "goal_type scenario_profile = goal_type ?q"
    and "duration_years scenario_profile = duration_years ?q"
    by simp_all
  from predict_time_to_goal_ignores_savings_percent [OF this, of "constant_model 30"]
  show ?thesis using d valid_scenario_profile by blast
qed

section \<open>The generator\<close>

text \<open>
  C7. The generator is deterministic: it reseeds the global generator with 42 before the
  first draw, so the frame it returns, and the generator state it leaves, do not depend on
  the state it finds. In particular a second call with the default record count, made in
  the state the first call left, returns the same frame as the first: every column equal,
  in the same order.
\<close>

theorem generate_synthetic_data_deterministic:
  "generate_synthetic_data rng n g = generate_synthetic_data rng n g' \<and>
   fst (generate_synthetic_data rng NUM_RECORDS
          (snd (generate_synthetic_data rng NUM_RECORDS g)))
     = fst (generate_synthetic_data rng NUM_RECORDS g)"
  by (simp add: generate_synthetic_data_def)

section \<open>The trainer\<close>

lemma df_get_df_set:
  "df_get (df_set df name c) name' = (if name' = name then Inr c else df_get df name')"
  by (simp add: df_get_def df_set_def update_conv')

lemma train_and_save_model_storage:
  "snd (snd (train_and_save_model lib df files)) =
     (case fst (train_and_save_model lib df files) of
        Inl e \<Rightarrow> files
      | Inr m \<Rightarrow> files(MODEL_PATH \<mapsto> m))"
  by (simp add: train_and_save_model_def Let_def split: sum.splits prod.splits)

lemma series_sub_TypeError:
  "\<not> (is_Floats x \<and> is_Floats y) \<Longrightarrow> series_sub x y = Inl TypeError"
  by (cases x; cases y) simp_all

lemma series_truediv_TypeError:
  "\<not> (is_Floats x \<and> is_Floats y) \<Longrightarrow> series_truediv x y = Inl TypeError"
  by (cases x; cases y) simp_all

lemma is_Floats_series_mul_int: "is_Floats (series_mul_int c k) = is_Floats c"
  by (cases c) simp_all

lemma train_and_save_model_TypeError:
  assumes "df_get df ''salary'' = Inr sal" and "df_get df ''expenses'' = Inr exps"
    and "df_get df ''goal_amount'' = Inr goal" and "df_get df ''duration_years'' = Inr dur"
    and "\<not> (is_Floats sal \<and> is_Floats exps \<and> is_Floats goal \<and> is_Floats dur)"
  shows "fst (train_and_save_model lib df files) = Inl TypeError"
proof (cases "is_Floats sal \<and> is_Floats exps")
  case False
  then have "series_sub sal exps = Inl TypeError" by (rule series_sub_TypeError)
  with assms show ?thesis by (simp add: train_and_save_model_def)
next
  case True
  then obtain a b where ab: "sal = Floats a" "exps = Floats b"
    by (cases sal; cases exps) simp_all
  from True assms(5) have "\<not> (is_Floats goal \<and> is_Floats (series_mul_int dur 12))"
    by (simp add: is_Floats_series_mul_int)
  then have "series_truediv goal (series_mul_int dur 12) = Inl TypeError"
    by (rule series_truediv_TypeError)
  with assms ab show ?thesis
    by (simp add: train_and_save_model_def Let_def df_get_df_set)
qed

lemma train_and_save_model_numeric:
  assumes "df_get df ''salary'' = Inr (Floats a)" and "df_get df ''expenses'' = Inr (Floats b)"
    and "df_get df ''goal_amount'' = Inr (Floats c)"
    and "df_get df ''duration_years'' = Inr (Floats d)"
    and "df_get df ''time_months'' = Inr y"
    and "train_test_split lib
           [(''net_income'', Floats (map2 np_sub a b)),
            (''required_savings_rate'',
               Floats (map2 np_div c (map (\<lambda>x. np_mul x (Fin 12)) d))),
            (''salary'', Floats a), (''expenses'', Floats b)] y
         = Inr (X_train, X_test, y_train, y_test)"
    and "fit lib X_train y_train = Inr m"
    and "predict lib m X_test = Inr y_pred"
    and "mean_absolute_error lib y_test y_pred = Inr mae"
  shows "fst (train_and_save_model lib df files) = Inr m"
  using assms
  by (simp add: train_and_save_model_def Let_def df_get_df_set)

text \<open>
  C8 (amended). The trainer has no check of its own on the feature frame. Whenever it
  aborts, the storage is as it was, and when it returns a model, that model is stored under
  the model path. When one of the four source columns is not numeric, deriving the features
  raises \<open>TypeError\<close>, before the split and the fit. When the four source columns are
  numeric, whatever their cells (missing values included), the derived frame goes to the
  library: if its split, fit, prediction and error metric succeed, the fitted model is
  returned and persisted.
\<close>

theorem train_and_save_model_outcomes:
  assumes "df_get df ''salary'' = Inr sal" and "df_get df ''expenses'' = Inr exps"
    and "df_get df ''goal_amount'' = Inr goal" and "df_get df ''duration_years'' = Inr dur"
  shows "snd (snd (train_and_save_model lib df files)) =
           (case fst (train_and_save_model lib df files) of
              Inl e \<Rightarrow> files
            | Inr m \<Rightarrow> files(MODEL_PATH \<mapsto> m)) \<and>
         (\<not> (is_Floats sal \<and> is_Floats exps \<and> is_Floats goal \<and> is_Floats dur) \<longrightarrow>
            fst (train_and_save_model lib df files) = Inl TypeError) \<and>
         (sal = Floats a \<and> exps = Floats b \<and> goal = Floats c \<and> dur = Floats d \<and>
          df_get df ''time_months'' = Inr y \<and>
          train_test_split lib
            [(''net_income'', Floats (map2 np_sub a b)),
             (''required_savings_rate'',
                Floats (map2 np_div c (map (\<lambda>x. np_mul x (Fin 12)) d))),
             (''salary'', Floats a), (''expenses'', Floats b)] y
            = Inr (X_train, X_test, y_train, y_test) \<and>
          fit lib X_train y_train = Inr m \<and>
          predict lib m X_test = Inr y_pred \<and>
          mean_absolute_error lib y_test y_pred = Inr mae \<longrightarrow>
            fst (train_and_save_model lib df files) = Inr m \<and>
            snd (snd (train_and_save_model lib df files)) MODEL_PATH = Some m)"
proof (intro conjI impI)
  show "snd (snd (train_and_save_model lib df files)) =
           (case fst (train_and_save_model lib df files) of
              Inl e \<Rightarrow> files
            | Inr m \<Rightarrow> files(MODEL_PATH \<mapsto> m))"
    by (rule train_and_save_model_storage)
next
  assume "\<not> (is_Floats sal \<and> is_Floats exps \<and> is_Floats goal \<and> is_Floats dur)"
  with assms show "fst (train_and_save_model lib df files) = Inl TypeError"
    by (rule train_and_save_model_TypeError)
next
  assume h: "sal = Floats a \<and> exps = Floats b \<and> goal = Floats c \<and> dur = Floats d \<and>
          df_get df ''time_months'' = Inr y \<and>
          train_test_split lib
            [(''net_income'', Floats (map2 np_sub a b)),
             (''required_savings_rate'',
                Floats (map2 np_div c (map (\<lambda>x. np_mul x (Fin 12)) d))),
             (''salary'', Floats a), (''expenses'', Floats b)] y
            = Inr (X_train, X_test, y_train, y_test) \<and>
          fit lib X_train y_train = Inr m \<and>
          predict lib m X_test = Inr y_pred \<and>
          mean_absolute_error lib y_test y_pred = Inr mae"
  from h assms have cols: "df_get df ''salary'' = Inr (Floats a)"
    "df_get df ''expenses'' = Inr (Floats b)"
    "df_get df ''goal_amount'' = Inr (Floats c)"
    "df_get df ''duration_years'' = Inr (Floats d)"
    by simp_all
  from h have y: "df_get df ''time_months'' = Inr y" by simp
  from h have split: "train_test_split lib
            [(''net_income'', Floats (map2 np_sub a b)),
             (''required_savings_rate'',
                Floats (map2 np_div c (map (\<lambda>x. np_mul x (Fin 12)) d))),
             (''salary'', Floats a), (''expenses'', Floats b)] y
            = Inr (X_train, X_test, y_train, y_test)" by simp
  from h have rest: "fit lib X_train y_train = Inr m" "predict lib m X_test = Inr y_pred"
    "mean_absolute_error lib y_test y_pred = Inr mae"
    by simp_all
  show r: "fst (train_and_save_model lib df files) = Inr m"
    by (rule train_and_save_model_numeric [OF cols y split rest])
  then show "snd (snd (train_and_save_model lib df files)) MODEL_PATH = Some m"
    by (simp add: train_and_save_model_storage)
qed

theorem train_and_save_model_outcomes_witness:
  "(\<exists>m. fst (train_and_save_model lenient_sklearn frame_with_missing Map.empty) = Inr m \<and>
        snd (snd (train_and_save_model lenient_sklearn frame_with_missing Map.empty)) MODEL_PATH
          = Some m) \<and>
   fst (train_and_save_model lenient_sklearn frame_with_text Map.empty) = Inl TypeError \<and>
   snd (snd (train_and_save_model lenient_sklearn frame_with_text Map.empty)) = Map.empty"
proof -
  let ?a = "[NaN, Fin 50000, Fin 60000, Fin 70000, Fin 80000]"
  let ?b = "[Fin 20000, Fin 25000, Fin 30000, Fin 35000, Fin 40000]"
  let ?c = "[Fin 120000, Fin 240000, Fin 360000, Fin 480000, Fin 600000]"
  let ?d = "[Fin 1, Fin 2, Fin 3, Fin 4, Fin 5]"
  let ?y = "Floats [Fin 12, Fin 24, Fin 36, Fin 48, Fin 60]"
  let ?X = "[(''net_income'', Floats (map2 np_sub ?a ?b)),
             (''required_savings_rate'',
                Floats (map2 np_div ?c (map (\<lambda>x. np_mul x (Fin 12)) ?d))),
             (''salary'', Floats ?a), (''expenses'', Floats ?b)]"
  have cols: "df_get frame_with_missing ''salary'' = Inr (Floats ?a)"
    "df_get frame_with_missing ''expenses'' = Inr (Floats ?b)"
    "df_get frame_with_missing ''goal_amount'' = Inr (Floats ?c)"
    "df_get frame_with_missing ''duration_years'' = Inr (Floats ?d)"
    by (simp_all add: df_get_def frame_with_missing_def)
  have y: "df_get frame_with_missing ''time_months'' = Inr ?y"
    by (simp add: df_get_def frame_with_missing_def)
  have "\<exists>X_train X_test y_train y_test.
          train_test_split lenient_sklearn ?X ?y = Inr (X_train, X_test, y_train, y_test)"
    by (simp add: lenient_sklearn_def Let_def)
  then obtain X_train X_test y_train y_test
    where split: "train_test_split lenient_sklearn ?X ?y = Inr (X_train, X_test, y_train, y_test)"
    by blast
  have "\<exists>m. fit lenient_sklearn X_train y_train = Inr m"
    by (simp add: lenient_sklearn_def)
  then obtain m where m: "fit lenient_sklearn X_train y_train = Inr m" by blast
  have "\<exists>y_pred. predict lenient_sklearn m X_test = Inr y_pred"
    by (simp add: lenient_sklearn_def)
  then obtain y_pred where y_pred: "predict lenient_sklearn m X_test = Inr y_pred" by blast
  have mae: "mean_absolute_error lenient_sklearn y_test y_pred = Inr 0"
    by (simp add: lenient_sklearn_def)
  from train_and_save_model_outcomes
         [OF cols, where lib = lenient_sklearn and files = Map.empty and a = ?a and b = ?b
            and c = ?c and d = ?d and y = ?y and X_train = X_train and X_test = X_test
            and y_train = y_train and y_test = y_test and m = m and y_pred = y_pred
            and mae = 0]
    y split m y_pred mae
  have ok: "fst (train_and_save_model lenient_sklearn frame_with_missing Map.empty) = Inr m \<and>
        snd (snd (train_and_save_model lenient_sklearn frame_with_missing Map.empty)) MODEL_PATH
          = Some m"
    by blast
  let ?t = "[''n/a'', ''50000'', ''60000'', ''70000'', ''80000'']"
  have cols': "df_get frame_with_text ''salary'' = Inr (Objects ?t)"
    "df_get frame_with_text ''expenses'' = Inr (Floats ?b)"
    "df_get frame_with_text ''goal_amount'' = Inr (Floats ?c)"
    "df_get frame_with_text ''duration_years'' = Inr (Floats ?d)"
    by (simp_all add: df_get_def df_set_def frame_with_text_def frame_with_missing_def)
  have nonnum: "\<not> (is_Floats (Objects ?t) \<and> is_Floats (Floats ?b) \<and> is_Floats (Floats ?c) \<and>
                 is_Floats (Floats ?d))"
    by simp
  from train_and_save_model_outcomes
         [OF cols', where lib = lenient_sklearn and files = Map.empty] nonnum
  have err: "fst (train_and_save_model lenient_sklearn frame_with_text Map.empty) = Inl TypeError"
    and store: "snd (snd (train_and_save_model lenient_sklearn frame_with_text Map.empty)) =
           (case fst (train_and_save_model lenient_sklearn frame_with_text Map.empty) of
              Inl e \<Rightarrow> Map.empty
            | Inr m \<Rightarrow> Map.empty(MODEL_PATH \<mapsto> m))"
    by blast+
  from store err
  have "snd (snd (train_and_save_model lenient_sklearn frame_with_text Map.empty)) = Map.empty"
    by simp
  with ok err show ?thesis by blast
qed

text \<open>
  C8 as stated fails: the frame \<open>frame_with_missing\<close> has a missing salary, so the feature
  frame derived from it is invalid, and yet with a library that accepts it the trainer
  returns a model and persists it.
\<close>

theorem train_and_save_model_missing_value_counterexample:
  "map_sum id frame_invalid
     (df_select (fst (snd (train_and_save_model lenient_sklearn frame_with_missing Map.empty)))
        feature_names) = Inr True \<and>
   fst (train_and_save_model lenient_sklearn frame_with_missing Map.empty) = Inr 4 \<and>
   snd (snd (train_and_save_model lenient_sklearn frame_with_missing Map.empty)) MODEL_PATH
     = Some 4"
  by (simp add: train_and_save_model_def Let_def df_get_def df_set_def frame_with_missing_def
      lenient_sklearn_def feature_names_def frame_invalid_def column_invalid_def np_sub_def)

end
